theory Spec2Isabelle
  imports Main "HOL-Library.Countable"
begin

section \<open>JavaScript values shared by the three modules\<close>

text \<open>
  Errors are values. \<open>Error\<close> is a plain \<^verbatim>\<open>throw new Error(msg)\<close>; \<open>TypeError\<close> is
  what the runtime raises when a property of \<^verbatim>\<open>undefined\<close> is read.
\<close>

datatype js_error = Error string | TypeError string

text \<open>
  A user or resource identifier: the schema's \<^verbatim>\<open>id SERIAL\<close> gives numbers, the tests use
  strings. \<^verbatim>\<open>===\<close> on two identifiers is equality of this type: a number never equals
  a string.
\<close>

datatype ident = IdNum int | IdStr string

text \<open>Truthiness, as \<^verbatim>\<open>!x\<close> and \<^verbatim>\<open>x || y\<close> read it; \<open>None\<close> is \<^verbatim>\<open>undefined\<close>.\<close>

fun truthy_ident :: "ident option \<Rightarrow> bool" where
  "truthy_ident None = False"
| "truthy_ident (Some (IdNum n)) = (n \<noteq> 0)"
| "truthy_ident (Some (IdStr s)) = (s \<noteq> [])"

fun truthy_str :: "string option \<Rightarrow> bool" where
  "truthy_str None = False"
| "truthy_str (Some s) = (s \<noteq> [])"

fun truthy_num :: "int option \<Rightarrow> bool" where
  "truthy_num None = False"
| "truthy_num (Some n) = (n \<noteq> 0)"

section \<open>rbac.js: the role table and its queries\<close>

record role_entry =
  r_name :: string
  r_level :: nat
  r_permissions :: "string list"

text \<open>The object literal \<^verbatim>\<open>ROLES\<close>, its own properties in source order.\<close>

definition ROLES :: "(string \<times> role_entry) list" where
  "ROLES =
    [(''ADMIN'', \<lparr>r_name = ''ADMIN'', r_level = 100, r_permissions =
        [''full_access'', ''user_management'', ''system_config'', ''approve_deposits'',
         ''manage_groups'', ''view_analytics'', ''manage_roles'', ''delete_users'',
         ''system_settings'']\<rparr>),
     (''MIT'', \<lparr>r_name = ''MIT'', r_level = 50, r_permissions =
        [''create_groups'', ''manage_own_groups'', ''approve_members'',
         ''view_group_analytics'', ''edit_group_settings'']\<rparr>),
     (''IT'', \<lparr>r_name = ''IT'', r_level = 75, r_permissions =
        [''view_system_logs'', ''debug_access'', ''api_access'', ''view_analytics'',
         ''technical_support'']\<rparr>),
     (''USER'', \<lparr>r_name = ''USER'', r_level = 10, r_permissions =
        [''view_own_profile'', ''edit_own_profile'', ''join_groups'', ''make_payments'',
         ''view_own_transactions'']\<rparr>)]"

text \<open>
  \<^verbatim>\<open>ROLES[key]\<close> reads own properties first and then the prototype chain: an object
  literal inherits the members of \<^verbatim>\<open>Object.prototype\<close>, which are truthy values without
  a \<^verbatim>\<open>permissions\<close> or \<^verbatim>\<open>level\<close> property.
\<close>

definition object_prototype_keys :: "string list" where
  "object_prototype_keys =
    [''constructor'', ''__defineGetter__'', ''__defineSetter__'', ''hasOwnProperty'',
     ''__lookupGetter__'', ''__lookupSetter__'', ''isPrototypeOf'',
     ''propertyIsEnumerable'', ''toString'', ''valueOf'', ''__proto__'',
     ''toLocaleString'']"

datatype role_prop = Own role_entry | Inherited | Undefined

definition ROLES_get :: "string \<Rightarrow> role_prop" where
  "ROLES_get key =
    (case map_of ROLES key of
       Some r \<Rightarrow> Own r
     | None \<Rightarrow> if key \<in> set object_prototype_keys then Inherited else Undefined)"

definition hasPermission :: "string \<Rightarrow> string \<Rightarrow> js_error + bool" where
  "hasPermission userRole requiredPermission =
    (case ROLES_get userRole of
       Undefined \<Rightarrow> Inr False
     | Own role \<Rightarrow>
         if userRole = ''ADMIN'' then Inr True
         else Inr (requiredPermission \<in> set (r_permissions role))
     | Inherited \<Rightarrow>
         if userRole = ''ADMIN'' then Inr True
         else Inl (TypeError ''Cannot read properties of undefined (reading 'includes')''))"

definition hasRoleLevel :: "string \<Rightarrow> string \<Rightarrow> bool" where
  "hasRoleLevel userRole requiredRole =
    (case (ROLES_get userRole, ROLES_get requiredRole) of
       (Undefined, _) \<Rightarrow> False
     | (_, Undefined) \<Rightarrow> False
     | (Own u, Own r) \<Rightarrow> r_level u \<ge> r_level r
     | (_, _) \<Rightarrow> False)"

definition isValidRole :: "string \<Rightarrow> bool" where
  "isValidRole role = (role \<in> set (map fst ROLES))"

definition canAccessResource :: "ident \<Rightarrow> ident \<Rightarrow> string \<Rightarrow> bool" where
  "canAccessResource userId resourceOwnerId userRole =
    (if userRole = ''ADMIN'' then True else userId = resourceOwnerId)"

record group =
  creator_id :: ident

definition canPerformGroupAction :: "ident \<Rightarrow> group \<Rightarrow> string \<Rightarrow> string \<Rightarrow> bool" where
  "canPerformGroupAction userId grp userRole action =
    (if userRole = ''ADMIN'' then True
     else if userRole = ''MIT'' \<and> creator_id grp = userId then
       (let mitActions = [''edit'', ''delete'', ''approve_members'', ''manage_settings'']
        in action \<in> set mitActions)
     else if action = ''view'' then True
     else False)"

section \<open>The signing library, as jwt.js calls it\<close>

text \<open>
  jwt.js delegates encoding and signing to the package \<^verbatim>\<open>jsonwebtoken\<close>, which is not
  part of the repository. Its primitives are parameters of the model: the base64url/JSON
  encoding of the header and of the payload with their decoders, and the HMAC-SHA256 tag
  of a signing input under a key. The order of the checks around them is modelled from
  the package's documented behaviour.

  The payload is the set of claims jwt.js reads, each with the type the data model gives
  it; \<open>None\<close> is an absent claim. A segment that is not the encoding of such a header or
  payload does not decode.
\<close>

record header =
  h_alg :: string
  h_typ :: string

record claims =
  c_user_id :: "ident option"
  c_email :: "string option"
  c_role :: "string option"
  c_permissions :: "string list option"
  c_iss :: "string option"
  c_aud :: "string option"
  c_iat :: "int option"
  c_exp :: "int option"
  c_nbf :: "int option"

record jwt_lib =
  enc_header :: "header \<Rightarrow> string"
  dec_header :: "string \<Rightarrow> header option"
  enc_claims :: "claims \<Rightarrow> string"
  dec_claims :: "string \<Rightarrow> claims option"
  sha256 :: "string \<Rightarrow> string"
  hmac_core :: "string \<Rightarrow> string \<Rightarrow> string"

text \<open>
  HMAC (RFC 2104) does not use the key as it is given. A key longer than the 64-byte
  block of SHA-256 is hashed first, and the result is padded with zero bytes to the
  block; \<open>hmac_core\<close> is the rest of the construction, the tag of a signing input under a
  key block (written out as base64url text). A string is its UTF-8 bytes.
\<close>

definition hmac_key_block :: "jwt_lib \<Rightarrow> string \<Rightarrow> string" where
  "hmac_key_block L key =
     (let k = (if length key > 64 then sha256 L key else key)
      in k @ replicate (64 - length k) (CHR 0x00))"

definition hs256 :: "jwt_lib \<Rightarrow> string \<Rightarrow> string \<Rightarrow> string" where
  "hs256 L key input = hmac_core L (hmac_key_block L key) input"

text \<open>
  What the model assumes of the primitives: decoding inverts encoding, and a segment
  (base64url text) holds no dot.
\<close>

definition lib_ok :: "jwt_lib \<Rightarrow> bool" where
  "lib_ok L \<longleftrightarrow>
     (\<forall>h. dec_header L (enc_header L h) = Some h) \<and>
     (\<forall>c. dec_claims L (enc_claims L c) = Some c) \<and>
     (\<forall>h. CHR ''.'' \<notin> set (enc_header L h)) \<and>
     (\<forall>c. CHR ''.'' \<notin> set (enc_claims L c)) \<and>
     (\<forall>b m. CHR ''.'' \<notin> set (hmac_core L b m))"

text \<open>\<^verbatim>\<open>token.split('.')\<close>: the empty string splits into one empty part.\<close>

fun split_dot :: "string \<Rightarrow> string list" where
  "split_dot [] = [[]]"
| "split_dot (c # cs) =
     (if c = CHR ''.'' then [] # split_dot cs
      else (case split_dot cs of [] \<Rightarrow> [[c]] | p # ps \<Rightarrow> (c # p) # ps))"

datatype jwt_error = JsonWebTokenError string | TokenExpiredError string | NotBeforeError string

record complete =
  d_header :: header
  d_payload :: claims
  d_signature :: string

text \<open>
  \<^verbatim>\<open>jwt.decode(token, {complete: true})\<close>: three segments whose first two decode, else
  \<^verbatim>\<open>null\<close>. No signature is checked. A payload that is not a JSON object of claims of
  the types above (one the package hands back as a raw string, or refuses with its
  parser's error) is outside the model and counts as undecodable.
\<close>

definition jwt_decode :: "jwt_lib \<Rightarrow> string \<Rightarrow> complete option" where
  "jwt_decode L token =
     (case split_dot token of
        [h, p, s] \<Rightarrow>
          (case (dec_header L h, dec_claims L p) of
             (Some hdr, Some payload) \<Rightarrow>
               Some \<lparr>d_header = hdr, d_payload = payload, d_signature = s\<rparr>
           | _ \<Rightarrow> None)
      | _ \<Rightarrow> None)"

text \<open>
  The claim checks of \<^verbatim>\<open>jwt.verify\<close> run after the signature check, in this order:
  not-before (\<open>NotBeforeError\<close>), expiry against the library's clock
  (\<open>TokenExpiredError\<close>), audience and issuer (\<open>JsonWebTokenError\<close> with the messages
  \<^verbatim>\<open>jwt audience invalid. expected: ...\<close> and \<^verbatim>\<open>jwt issuer invalid. expected: ...\<close>).
  An expected audience or issuer that is the empty string is falsy and switches its check
  off.
\<close>

definition verify_claims :: "claims \<Rightarrow> string \<Rightarrow> string \<Rightarrow> int \<Rightarrow> jwt_error + claims" where
  "verify_claims payload issuer audience clock =
     (if (case c_nbf payload of Some n \<Rightarrow> n > clock | None \<Rightarrow> False)
        then Inl (NotBeforeError ''jwt not active'')
      else if (case c_exp payload of Some e \<Rightarrow> clock \<ge> e | None \<Rightarrow> False)
        then Inl (TokenExpiredError ''jwt expired'')
      else if audience \<noteq> [] \<and> c_aud payload \<noteq> Some audience
        then Inl (JsonWebTokenError (''jwt audience invalid. expected: '' @ audience))
      else if issuer \<noteq> [] \<and> c_iss payload \<noteq> Some issuer
        then Inl (JsonWebTokenError (''jwt issuer invalid. expected: '' @ issuer))
      else Inr payload)"

text \<open>
  \<^verbatim>\<open>jwt.verify(token, secret, {algorithms: ['HS256'], issuer, audience})\<close>. Every
  structural, key, algorithm and signature failure is a \<open>JsonWebTokenError\<close> (an
  undecodable segment is reported as one too); the tag is recomputed over the first two
  segments as they were received.
\<close>

definition jwt_verify ::
  "jwt_lib \<Rightarrow> string \<Rightarrow> string \<Rightarrow> string \<Rightarrow> string \<Rightarrow> int \<Rightarrow> jwt_error + claims" where
  "jwt_verify L token secret issuer audience clock =
     (if token = [] then Inl (JsonWebTokenError ''jwt must be provided'')
      else case split_dot token of
        [h, p, s] \<Rightarrow>
          (case jwt_decode L token of
             None \<Rightarrow> Inl (JsonWebTokenError ''invalid token'')
           | Some d \<Rightarrow>
               if secret = []
                 then Inl (JsonWebTokenError ''secret or public key must be provided'')
               else if h_alg (d_header d) \<noteq> ''HS256''
                 then Inl (JsonWebTokenError ''invalid algorithm'')
               else if s \<noteq> hs256 L secret (h @ ''.'' @ p)
                 then Inl (JsonWebTokenError ''invalid signature'')
               else verify_claims (d_payload d) issuer audience clock)
      | _ \<Rightarrow> Inl (JsonWebTokenError ''jwt malformed''))"

text \<open>
  \<^verbatim>\<open>jwt.sign(payload, secret, {algorithm: 'HS256', expiresIn, issuer, audience})\<close>: the
  library stamps \<open>iat\<close> with its clock, \<open>exp = iat + expiresIn\<close>, \<open>aud\<close> and \<open>iss\<close>, and
  refuses an empty secret. \<open>expiresIn\<close> is a number of seconds; times and durations are
  integers, which JavaScript numbers represent exactly below \<open>2 ^ 53\<close>.
\<close>

definition jwt_sign ::
  "jwt_lib \<Rightarrow> claims \<Rightarrow> string \<Rightarrow> int \<Rightarrow> string \<Rightarrow> string \<Rightarrow> int \<Rightarrow> js_error + string" where
  "jwt_sign L payload secret expIn iss aud clock =
     (if secret = [] then Inl (Error ''secretOrPrivateKey must have a value'')
      else
        (let stamped = payload\<lparr>c_iat := Some clock, c_exp := Some (clock + expIn),
                                c_aud := Some aud, c_iss := Some iss\<rparr>;
             input = enc_header L \<lparr>h_alg = ''HS256'', h_typ = ''JWT''\<rparr> @ ''.'' @
                     enc_claims L stamped
         in Inr (input @ ''.'' @ hs256 L secret input)))"

section \<open>jwt.js: issuing, validating and refreshing tokens\<close>

text \<open>
  The \<^verbatim>\<open>options\<close> object; \<open>None\<close> is an absent key, which the destructuring replaces by
  its default (\<^verbatim>\<open>'8h'\<close> is 28800 seconds).
\<close>

record options =
  expiresIn :: "int option"
  issuer :: "string option"
  audience :: "string option"

definition default_options :: options where
  "default_options = \<lparr>expiresIn = None, issuer = None, audience = None\<rparr>"

definition issuer_or_default :: "options \<Rightarrow> string" where
  "issuer_or_default opts = (case issuer opts of None \<Rightarrow> ''latanda.online'' | Some i \<Rightarrow> i)"

definition audience_or_default :: "options \<Rightarrow> string" where
  "audience_or_default opts =
     (case audience opts of None \<Rightarrow> ''latanda-web-app'' | Some a \<Rightarrow> a)"

definition expiresIn_or_default :: "options \<Rightarrow> int" where
  "expiresIn_or_default opts = (case expiresIn opts of None \<Rightarrow> 28800 | Some e \<Rightarrow> e)"

record user =
  u_id :: "ident option"
  u_user_id :: "ident option"
  u_email :: "string option"
  u_role :: "string option"
  u_permissions :: "string list option"

definition generateToken ::
  "jwt_lib \<Rightarrow> user \<Rightarrow> string \<Rightarrow> options \<Rightarrow> int \<Rightarrow> js_error + string" where
  "generateToken L usr secret opts clock =
     (let payload =
        \<lparr>c_user_id = (if truthy_ident (u_id usr) then u_id usr else u_user_id usr),
         c_email = u_email usr,
         c_role = (if truthy_str (u_role usr) then u_role usr else Some ''USER''),
         c_permissions = (case u_permissions usr of Some ps \<Rightarrow> Some ps | None \<Rightarrow> Some []),
         c_iss = None, c_aud = None, c_iat = None, c_exp = None, c_nbf = None\<rparr>
      in jwt_sign L payload secret (expiresIn_or_default opts) (issuer_or_default opts)
           (audience_or_default opts) clock)"

text \<open>
  The result object of \<^verbatim>\<open>validateToken\<close>: \<open>Valid decoded user_id email role
  permissions\<close>, or \<open>Invalid error expired\<close>, whose flag is true where the object
  carries \<^verbatim>\<open>expired: true\<close> and false where it has no such key.
\<close>

datatype validation =
    Valid claims "ident option" "string option" "string option" "string list"
  | Invalid string bool

text \<open>
  The keys \<^verbatim>\<open>valid\<close>, \<^verbatim>\<open>expired\<close> and \<^verbatim>\<open>decoded\<close> of the result object, as
  \<^verbatim>\<open>refreshToken\<close> reads them: a key the object does not have is falsy.
\<close>

fun valid :: "validation \<Rightarrow> bool" where
  "valid (Valid d uid em ro ps) = True"
| "valid (Invalid e ex) = False"

fun expired :: "validation \<Rightarrow> bool" where
  "expired (Valid d uid em ro ps) = False"
| "expired (Invalid e ex) = ex"

fun decoded :: "validation \<Rightarrow> claims option" where
  "decoded (Valid d uid em ro ps) = Some d"
| "decoded (Invalid e ex) = None"

definition requiredClaims :: "string list" where
  "requiredClaims = [''user_id'', ''email'', ''role'', ''iss'', ''aud'', ''exp'', ''iat'']"

text \<open>\<^verbatim>\<open>decoded[claim]\<close> read for its truthiness: absent, empty and zero are all falsy.\<close>

definition claim_truthy :: "claims \<Rightarrow> string \<Rightarrow> bool" where
  "claim_truthy d claim =
     (if claim = ''user_id'' then truthy_ident (c_user_id d)
      else if claim = ''email'' then truthy_str (c_email d)
      else if claim = ''role'' then truthy_str (c_role d)
      else if claim = ''iss'' then truthy_str (c_iss d)
      else if claim = ''aud'' then truthy_str (c_aud d)
      else if claim = ''exp'' then truthy_num (c_exp d)
      else if claim = ''iat'' then truthy_num (c_iat d)
      else False)"

text \<open>
  \<open>clock\<close> is the time \<^verbatim>\<open>jwt.verify\<close> reads, \<open>now\<close> the time line 81 reads afterwards
  (both in seconds). The token is a string, so the first check is the one for the empty
  string.
\<close>

definition validateToken ::
  "jwt_lib \<Rightarrow> string \<Rightarrow> string \<Rightarrow> options \<Rightarrow> int \<Rightarrow> int \<Rightarrow> validation" where
  "validateToken L token secret opts clock now =
     (let iss = issuer_or_default opts; aud = audience_or_default opts in
      if token = [] then Invalid ''Invalid token format'' False
      else if length (split_dot token) \<noteq> 3 then Invalid ''Malformed token structure'' False
      else
        (case jwt_verify L token secret iss aud clock of
           Inl (TokenExpiredError m) \<Rightarrow> Invalid ''Token expired'' True
         | Inl (JsonWebTokenError m) \<Rightarrow> Invalid ''Invalid token signature'' False
         | Inl (NotBeforeError m) \<Rightarrow> Invalid m False
         | Inr dec \<Rightarrow>
             (case find (\<lambda>claim. \<not> claim_truthy dec claim) requiredClaims of
                Some claim \<Rightarrow> Invalid (''Missing required claim: '' @ claim) False
              | None \<Rightarrow>
                  if (case c_exp dec of Some e \<Rightarrow> e \<le> now | None \<Rightarrow> False)
                    then Invalid ''Token expired'' False
                  else if c_iss dec \<noteq> Some iss then Invalid ''Invalid issuer'' False
                  else if c_aud dec \<noteq> Some aud then Invalid ''Invalid audience'' False
                  else Valid dec (c_user_id dec) (c_email dec) (c_role dec)
                         (case c_permissions dec of Some ps \<Rightarrow> ps | None \<Rightarrow> []))))"

text \<open>\<^verbatim>\<open>decodeToken\<close>: the library's decode; a raise becomes \<^verbatim>\<open>null\<close>.\<close>

definition decodeToken :: "jwt_lib \<Rightarrow> string \<Rightarrow> complete option" where
  "decodeToken L token = jwt_decode L token"

text \<open>The \<^verbatim>\<open>user\<close> object \<^verbatim>\<open>refreshToken\<close> rebuilds from the decoded claims.\<close>

definition user_of_claims :: "claims \<Rightarrow> user" where
  "user_of_claims dec =
     \<lparr>u_id = c_user_id dec, u_user_id = None, u_email = c_email dec,
      u_role = c_role dec, u_permissions = c_permissions dec\<rparr>"

datatype refresh_result =
    Refreshed (new_token: string) (rr_user_id: "ident option") (expires_in: int)
  | Refused string

text \<open>
  \<open>clock\<close> and \<open>now\<close> are the two times the validation reads, \<open>clock'\<close> the time the new
  token is signed. Reading \<^verbatim>\<open>.payload\<close> of a \<^verbatim>\<open>null\<close> decode and a failing
  \<^verbatim>\<open>generateToken\<close> would raise out of the function.
\<close>

definition refreshToken ::
  "jwt_lib \<Rightarrow> string \<Rightarrow> string \<Rightarrow> options \<Rightarrow> int \<Rightarrow> int \<Rightarrow> int \<Rightarrow> js_error + refresh_result" where
  "refreshToken L oldToken secret opts clock now clock' =
     (let validation = validateToken L oldToken secret opts clock now in
      if \<not> valid validation \<and> \<not> expired validation
        then Inr (Refused ''Invalid token cannot be refreshed'')
      else
        (case (case decoded validation of
                 Some d \<Rightarrow> Some d
               | None \<Rightarrow> map_option d_payload (decodeToken L oldToken)) of
           None \<Rightarrow> Inl (TypeError ''Cannot read properties of null (reading payload)'')
         | Some dec \<Rightarrow>
             (let usr = user_of_claims dec
              in case generateToken L usr secret opts clock' of
                   Inl e \<Rightarrow> Inl e
                 | Inr newToken \<Rightarrow>
                     Inr (Refreshed newToken (u_id usr)
                            (if truthy_num (expiresIn opts) then expiresIn_or_default opts
                             else 28800)))))"

section \<open>middleware.js: the request gates\<close>

text \<open>
  The part of the Express request the gates read and write: the Authorization header,
  and the \<^verbatim>\<open>req.user\<close> and \<^verbatim>\<open>req.token\<close> a successful authentication attaches.
  \<open>None\<close> is an absent (or \<^verbatim>\<open>null\<close>) value.
\<close>

record req_user =
  ru_id :: "ident option"
  ru_email :: "string option"
  ru_role :: "string option"
  ru_permissions :: "string list"

record request =
  req_authorization :: "string option"
  req_user :: "req_user option"
  req_token :: "string option"

text \<open>The error record handed to a custom handler.\<close>

record auth_error =
  message :: string
  code :: string

text \<open>The values of a JSON response body; an \<^verbatim>\<open>undefined\<close> value is a key left out.\<close>

datatype jval = JBool bool | JStr string | JStrs "string list" | JUndefined

text \<open>
  What a gate does with a request: call \<^verbatim>\<open>next()\<close> with the request as it then is,
  send \<^verbatim>\<open>res.status(s).json(body)\<close>, return what the custom handler made of the
  request and the response, or raise.
\<close>

datatype 'h outcome =
    Next request
  | Respond nat "(string \<times> jval) list"
  | Custom 'h
  | Throws js_error

text \<open>
  A handler \<^verbatim>\<open>(req, res, error) => ...\<close> is a function of the request and the error
  record; its value stands for everything it does to the response.
\<close>

type_synonym 'h handler = "request \<Rightarrow> auth_error \<Rightarrow> 'h"

record 'h config =
  jwtSecret :: "string option"
  cfg_issuer :: "string option"
  cfg_audience :: "string option"
  onUnauthorized :: "'h handler option"

text \<open>
  Lines 32 to 48: the token is what follows the prefix \<^verbatim>\<open>Bearer \<close> of a non-empty
  Authorization header; any other header gives no token.
\<close>

definition bearer_token :: "request \<Rightarrow> string option" where
  "bearer_token req =
     (case req_authorization req of
        None \<Rightarrow> None
      | Some authHeader \<Rightarrow>
          if authHeader = [] \<or> take 7 authHeader \<noteq> ''Bearer '' then None
          else Some (drop 7 authHeader))"

definition authMiddleware ::
  "jwt_lib \<Rightarrow> string \<Rightarrow> string \<Rightarrow> string \<Rightarrow> 'h handler option \<Rightarrow>
   request \<Rightarrow> int \<Rightarrow> int \<Rightarrow> 'h outcome" where
  "authMiddleware L secret iss aud handler req clock now =
     (case bearer_token req of
        None \<Rightarrow>
          (let err = \<lparr>message = ''Missing or invalid Authorization header'',
                      code = ''NO_TOKEN''\<rparr>
           in case handler of
                Some h \<Rightarrow> Custom (h req err)
              | None \<Rightarrow>
                  Respond 401 [(''success'', JBool False),
                               (''error'', JStr ''Authentication required''),
                               (''code'', JStr ''NO_TOKEN'')])
      | Some token \<Rightarrow>
          (case validateToken L token secret
                  \<lparr>expiresIn = None, issuer = Some iss, audience = Some aud\<rparr> clock now of
             Invalid e ex \<Rightarrow>
               (let err = \<lparr>message = e, code = ''INVALID_TOKEN''\<rparr>
                in case handler of
                     Some h \<Rightarrow> Custom (h req err)
                   | None \<Rightarrow>
                       Respond 401 [(''success'', JBool False), (''error'', JStr e),
                                    (''code'', JStr ''INVALID_TOKEN''),
                                    (''expired'', JBool ex)])
           | Valid d uid em ro ps \<Rightarrow>
               Next (req\<lparr>req_user := Some \<lparr>ru_id = uid, ru_email = em, ru_role = ro,
                                              ru_permissions = ps\<rparr>,
                         req_token := Some token\<rparr>)))"

definition createAuthMiddleware ::
  "jwt_lib \<Rightarrow> 'h config \<Rightarrow> js_error + (request \<Rightarrow> int \<Rightarrow> int \<Rightarrow> 'h outcome)" where
  "createAuthMiddleware L config =
     (let iss = (case cfg_issuer config of None \<Rightarrow> ''latanda.online'' | Some i \<Rightarrow> i);
          aud = (case cfg_audience config of None \<Rightarrow> ''latanda-web-app'' | Some a \<Rightarrow> a)
      in if \<not> truthy_str (jwtSecret config)
           then Inl (Error ''@latanda/auth-middleware: jwtSecret is required'')
         else Inr (authMiddleware L (case jwtSecret config of Some s \<Rightarrow> s | None \<Rightarrow> [])
                     iss aud (onUnauthorized config)))"

text \<open>
  A role read off the request is used as a property key of \<^verbatim>\<open>ROLES\<close>: an absent role
  reads the key \<^verbatim>\<open>undefined\<close>, which the table does not have.
\<close>

definition role_key :: "string option \<Rightarrow> string" where
  "role_key r = (case r of None \<Rightarrow> ''undefined'' | Some s \<Rightarrow> s)"

definition role_json :: "string option \<Rightarrow> jval" where
  "role_json r = (case r of None \<Rightarrow> JUndefined | Some s \<Rightarrow> JStr s)"

text \<open>\<^verbatim>\<open>permissions.every(...)\<close> and \<^verbatim>\<open>permissions.some(...)\<close>, left to right.\<close>

fun every_perm :: "string \<Rightarrow> string list \<Rightarrow> js_error + bool" where
  "every_perm userRole [] = Inr True"
| "every_perm userRole (perm # perms) =
     (case hasPermission userRole perm of
        Inl e \<Rightarrow> Inl e
      | Inr b \<Rightarrow> if b then every_perm userRole perms else Inr False)"

fun some_perm :: "string \<Rightarrow> string list \<Rightarrow> js_error + bool" where
  "some_perm userRole [] = Inr False"
| "some_perm userRole (perm # perms) =
     (case hasPermission userRole perm of
        Inl e \<Rightarrow> Inl e
      | Inr b \<Rightarrow> if b then Inr True else some_perm userRole perms)"

datatype perm_arg = OnePermission string | PermissionList "string list"

text \<open>
  The options object of \<^verbatim>\<open>requirePermission\<close>. Only \<^verbatim>\<open>requireAll\<close> is read; as a
  record scheme the argument may carry any further keys, as a JavaScript object may.
\<close>

record perm_options =
  requireAll :: "bool option"

definition permissionMiddleware :: "string list \<Rightarrow> bool \<Rightarrow> request \<Rightarrow> 'h outcome" where
  "permissionMiddleware perms reqAll req =
     (case req_user req of
        None \<Rightarrow>
          Respond 401 [(''success'', JBool False),
                       (''error'', JStr ''Authentication required before permission check''),
                       (''code'', JStr ''NO_AUTH'')]
      | Some u \<Rightarrow>
          (let userRole = ru_role u in
           case (if reqAll then every_perm (role_key userRole) perms
                 else some_perm (role_key userRole) perms) of
             Inl e \<Rightarrow> Throws e
           | Inr hasAccess \<Rightarrow>
               if \<not> hasAccess then
                 Respond 403 [(''success'', JBool False),
                              (''error'', JStr ''Insufficient permissions''),
                              (''code'', JStr ''FORBIDDEN''),
                              (''required'', JStrs perms),
                              (''userRole'', role_json userRole)]
               else Next req))"

definition requirePermission ::
  "perm_arg \<Rightarrow> 'z perm_options_scheme \<Rightarrow> request \<Rightarrow> 'h outcome" where
  "requirePermission requiredPermissions opts =
     (let reqAll = (case requireAll opts of None \<Rightarrow> False | Some b \<Rightarrow> b);
          perms = (case requiredPermissions of
                     PermissionList ps \<Rightarrow> ps
                   | OnePermission p \<Rightarrow> [p])
      in permissionMiddleware perms reqAll)"

definition roleMiddleware :: "string \<Rightarrow> request \<Rightarrow> 'h outcome" where
  "roleMiddleware minimumRole req =
     (case req_user req of
        None \<Rightarrow>
          Respond 401 [(''success'', JBool False),
                       (''error'', JStr ''Authentication required before role check''),
                       (''code'', JStr ''NO_AUTH'')]
      | Some u \<Rightarrow>
          (let userRole = ru_role u in
           if \<not> hasRoleLevel (role_key userRole) minimumRole then
             Respond 403 [(''success'', JBool False),
                          (''error'', JStr (''Requires '' @ minimumRole @ '' role or higher'')),
                          (''code'', JStr ''INSUFFICIENT_ROLE''),
                          (''required'', JStr minimumRole),
                          (''current'', role_json userRole)]
           else Next req))"

definition requireRole :: "string \<Rightarrow> js_error + (request \<Rightarrow> 'h outcome)" where
  "requireRole minimumRole =
     (if \<not> isValidRole minimumRole
        then Inl (Error (''Invalid role: '' @ minimumRole @
                         ''. Must be ADMIN, MIT, IT, or USER''))
      else Inr (roleMiddleware minimumRole))"

text \<open>
  The argument of \<^verbatim>\<open>requireOwnership\<close>: a function of the request, synchronous or
  awaited, that returns an owner id or raises; or a plain value.
\<close>

datatype accessor =
    AccessorFn "request \<Rightarrow> js_error + ident option"
  | AccessorValue "ident option"

definition ownershipMiddleware :: "accessor \<Rightarrow> request \<Rightarrow> 'h outcome" where
  "ownershipMiddleware getResourceOwnerId req =
     (case req_user req of
        None \<Rightarrow>
          Respond 401 [(''success'', JBool False),
                       (''error'', JStr ''Authentication required''),
                       (''code'', JStr ''NO_AUTH'')]
      | Some u \<Rightarrow>
          if ru_role u = Some ''ADMIN'' then Next req
          else
            (case (case getResourceOwnerId of
                     AccessorFn f \<Rightarrow> f req
                   | AccessorValue v \<Rightarrow> Inr v) of
               Inl e \<Rightarrow>
                 Respond 500 [(''success'', JBool False),
                              (''error'', JStr ''Failed to verify resource ownership''),
                              (''code'', JStr ''OWNERSHIP_CHECK_FAILED'')]
             | Inr resourceOwnerId \<Rightarrow>
                 if ru_id u \<noteq> resourceOwnerId then
                   Respond 403 [(''success'', JBool False),
                                (''error'', JStr ''You can only access your own resources''),
                                (''code'', JStr ''NOT_OWNER'')]
                 else Next req))"

definition requireOwnership :: "accessor \<Rightarrow> request \<Rightarrow> 'h outcome" where
  "requireOwnership getResourceOwnerId = ownershipMiddleware getResourceOwnerId"

section \<open>Vocabulary of the properties\<close>

text \<open>
  A token is correctly signed under a secret when it has three segments, the first two
  decode, the header names HS256, the secret is not empty and the third segment is the tag
  of the first two; \<open>signed_payload\<close> then gives its claims.
\<close>

definition signed_payload :: "jwt_lib \<Rightarrow> string \<Rightarrow> string \<Rightarrow> claims option" where
  "signed_payload L token secret =
     (case split_dot token of
        [h, p, s] \<Rightarrow>
          (case (dec_header L h, dec_claims L p) of
             (Some hdr, Some d) \<Rightarrow>
               if secret \<noteq> [] \<and> h_alg hdr = ''HS256'' \<and> s = hs256 L secret (h @ ''.'' @ p)
               then Some d else None
           | _ \<Rightarrow> None)
      | _ \<Rightarrow> None)"

text \<open>The part of a three-segment token that is signed: its first two segments.\<close>

definition signing_input :: "string \<Rightarrow> string" where
  "signing_input token =
     (case split_dot token of [h, p, s] \<Rightarrow> h @ ''.'' @ p | _ \<Rightarrow> [])"

text \<open>The token is active and not yet expired at the time \<^verbatim>\<open>jwt.verify\<close> reads.\<close>

definition not_before_ok :: "claims \<Rightarrow> int \<Rightarrow> bool" where
  "not_before_ok d clock = (case c_nbf d of Some n \<Rightarrow> n \<le> clock | None \<Rightarrow> True)"

definition unexpired :: "claims \<Rightarrow> int \<Rightarrow> bool" where
  "unexpired d clock = (case c_exp d of Some e \<Rightarrow> clock < e | None \<Rightarrow> True)"

text \<open>Lines 72 to 101 of \<^verbatim>\<open>validateToken\<close>: what follows a successful \<^verbatim>\<open>jwt.verify\<close>.\<close>

definition after_verify :: "claims \<Rightarrow> string \<Rightarrow> string \<Rightarrow> int \<Rightarrow> validation" where
  "after_verify dec iss aud now =
     (case find (\<lambda>claim. \<not> claim_truthy dec claim) requiredClaims of
        Some claim \<Rightarrow> Invalid (''Missing required claim: '' @ claim) False
      | None \<Rightarrow>
          if (case c_exp dec of Some e \<Rightarrow> e \<le> now | None \<Rightarrow> False)
            then Invalid ''Token expired'' False
          else if c_iss dec \<noteq> Some iss then Invalid ''Invalid issuer'' False
          else if c_aud dec \<noteq> Some aud then Invalid ''Invalid audience'' False
          else Valid dec (c_user_id dec) (c_email dec) (c_role dec)
                 (case c_permissions dec of Some ps \<Rightarrow> ps | None \<Rightarrow> []))"

text \<open>The options object line 51 builds from the configuration.\<close>

definition config_options :: "'h config \<Rightarrow> options" where
  "config_options config =
     \<lparr>expiresIn = None,
      issuer = Some (case cfg_issuer config of None \<Rightarrow> ''latanda.online'' | Some i \<Rightarrow> i),
      audience = Some (case cfg_audience config of None \<Rightarrow> ''latanda-web-app'' | Some a \<Rightarrow> a)\<rparr>"

text \<open>
  The default status of each rejection code, as the claim on default responses lists
  them, and a response whose \<^verbatim>\<open>code\<close> key has that status.
\<close>

definition default_status :: "string \<Rightarrow> nat option" where
  "default_status c =
     (if c \<in> {''NO_TOKEN'', ''INVALID_TOKEN'', ''NO_AUTH''} then Some 401
      else if c \<in> {''FORBIDDEN'', ''INSUFFICIENT_ROLE'', ''NOT_OWNER''} then Some 403
      else if c = ''OWNERSHIP_CHECK_FAILED'' then Some 500
      else None)"

definition status_fits_code :: "nat \<Rightarrow> (string \<times> jval) list \<Rightarrow> bool" where
  "status_fits_code st body =
     (case map_of body ''code'' of
        Some (JStr c) \<Rightarrow> default_status c = Some st
      | _ \<Rightarrow> False)"

section \<open>A sample library and sample inputs\<close>

text \<open>
  An instance of the library parameters that meets \<open>lib_ok\<close>: every value is encoded
  by its number in an enumeration of its type, written in unary, so that two key blocks
  never give one signing input the same tag.
\<close>

instance ident :: countable
  by countable_datatype

definition claims_tuple ::
  "claims \<Rightarrow> ident option \<times> string option \<times> string option \<times> string list option \<times>
     string option \<times> string option \<times> int option \<times> int option \<times> int option" where
  "claims_tuple c = (c_user_id c, c_email c, c_role c, c_permissions c, c_iss c, c_aud c,
                     c_iat c, c_exp c, c_nbf c)"

definition tuple_claims ::
  "ident option \<times> string option \<times> string option \<times> string list option \<times>
     string option \<times> string option \<times> int option \<times> int option \<times> int option \<Rightarrow> claims" where
  "tuple_claims x = (case x of (a, b, c, d, e, f, g, h, i) \<Rightarrow>
     \<lparr>c_user_id = a, c_email = b, c_role = c, c_permissions = d, c_iss = e, c_aud = f,
      c_iat = g, c_exp = h, c_nbf = i\<rparr>)"

definition sample_lib :: jwt_lib where
  "sample_lib =
     \<lparr>enc_header = (\<lambda>h. replicate (to_nat (h_alg h, h_typ h)) (CHR ''h'')),
      dec_header = (\<lambda>s. case from_nat (length s) of (a, t) \<Rightarrow> Some \<lparr>h_alg = a, h_typ = t\<rparr>),
      enc_claims = (\<lambda>c. replicate (to_nat (claims_tuple c)) (CHR ''c'')),
      dec_claims = (\<lambda>s. Some (tuple_claims (from_nat (length s)))),
      sha256 = (\<lambda>k. take 32 k),
      hmac_core = (\<lambda>b m. replicate (to_nat (b, m)) (CHR ''s''))\<rparr>"

text \<open>The test suite's user, the same user with an empty email, and two requests.\<close>

definition alice :: user where
  "alice = \<lparr>u_id = Some (IdStr ''user_123''), u_user_id = None,
            u_email = Some ''test@latanda.online'', u_role = Some ''USER'',
            u_permissions = Some []\<rparr>"

definition no_email :: user where
  "no_email = \<lparr>u_id = Some (IdStr ''user_123''), u_user_id = None,
            u_email = Some [], u_role = Some ''USER'', u_permissions = Some []\<rparr>"

definition evil_issuer :: options where
  "evil_issuer = \<lparr>expiresIn = None, issuer = Some ''evil.example'', audience = None\<rparr>"

definition plain_user :: request where
  "plain_user =
     \<lparr>req_authorization = None,
      req_user = Some \<lparr>ru_id = Some (IdStr ''u1''), ru_email = Some ''a@b.com'',
                       ru_role = Some ''USER'', ru_permissions = []\<rparr>,
      req_token = None\<rparr>"

definition anonymous :: request where
  "anonymous = \<lparr>req_authorization = None, req_user = None, req_token = None\<rparr>"

text \<open>
  An options object for \<^verbatim>\<open>requirePermission\<close> that also carries a handler, a handler
  that answers with the error code, and a configuration that installs it.
\<close>

record 'h perm_options_with_handler = perm_options +
  po_onUnauthorized :: "'h handler option"

definition report_code :: "string handler" where
  "report_code req err = code err"

definition sample_config :: "string config" where
  "sample_config = \<lparr>jwtSecret = Some ''test-secret'', cfg_issuer = None, cfg_audience = None,
                     onUnauthorized = Some report_code\<rparr>"

section \<open>Properties of the role table\<close>

text \<open>
  C6. For every permission string, listed in some role or not,
  \<open>hasPermission ''ADMIN''\<close> returns true; \<open>hasPermission ''USER'' ''system_config''\<close>
  returns false. Neither call raises.
\<close>

theorem C6_admin_has_every_permission:
  "hasPermission ''ADMIN'' permission = Inr True \<and>
   hasPermission ''USER'' ''system_config'' = Inr False"
  by (simp add: hasPermission_def ROLES_get_def ROLES_def)

text \<open>
  C7. \<open>canPerformGroupAction\<close> is a cascade: ADMIN is always allowed; otherwise a MIT
  requester who created the group is allowed exactly the actions edit, delete,
  approve_members and manage_settings; otherwise the requester is allowed exactly the
  action view.
\<close>

theorem C7_group_action_cascade:
  "canPerformGroupAction userId grp userRole action =
     (if userRole = ''ADMIN'' then True
      else if userRole = ''MIT'' \<and> creator_id grp = userId
        then action \<in> {''edit'', ''delete'', ''approve_members'', ''manage_settings''}
      else action = ''view'')"
  by (simp add: canPerformGroupAction_def)

section \<open>Tokens: splitting, signing and verifying\<close>

lemma split_dot_nodot: "CHR ''.'' \<notin> set a \<Longrightarrow> split_dot a = [a]"
  by (induction a) auto

lemma split_dot_append:
  "CHR ''.'' \<notin> set a \<Longrightarrow> split_dot (a @ CHR ''.'' # r) = a # split_dot r"
  by (induction a) auto

lemma split_dot_three:
  assumes "CHR ''.'' \<notin> set h" "CHR ''.'' \<notin> set p" "CHR ''.'' \<notin> set s"
  shows "split_dot (h @ CHR ''.'' # p @ CHR ''.'' # s) = [h, p, s]"
  using assms by (simp add: split_dot_append split_dot_nodot)

lemma signed_payload_three:
  "signed_payload L token secret = Some d \<Longrightarrow> length (split_dot token) = 3 \<and> token \<noteq> []"
  by (auto simp: signed_payload_def split: list.splits)

lemma jwt_verify_signed:
  "signed_payload L token secret = Some d \<Longrightarrow>
   jwt_verify L token secret iss aud clock = verify_claims d iss aud clock"
  by (auto simp: signed_payload_def jwt_verify_def jwt_decode_def
           split: list.splits option.splits if_splits)

lemma jwt_sign_signed:
  assumes ok: "lib_ok L" and sg: "jwt_sign L payload secret expIn iss aud t = Inr token"
  shows "signed_payload L token secret =
           Some (payload\<lparr>c_iat := Some t, c_exp := Some (t + expIn),
                          c_aud := Some aud, c_iss := Some iss\<rparr>)"
proof -
  define stamped where "stamped = payload\<lparr>c_iat := Some t, c_exp := Some (t + expIn),
                          c_aud := Some aud, c_iss := Some iss\<rparr>"
  define h where "h = enc_header L \<lparr>h_alg = ''HS256'', h_typ = ''JWT''\<rparr>"
  define p where "p = enc_claims L stamped"
  define s where "s = hs256 L secret (h @ ''.'' @ p)"
  from sg have sec: "secret \<noteq> []" and tok: "token = h @ CHR ''.'' # p @ CHR ''.'' # s"
    by (auto simp: jwt_sign_def Let_def h_def p_def s_def stamped_def split: if_splits)
  from ok have nd: "CHR ''.'' \<notin> set h" "CHR ''.'' \<notin> set p" "CHR ''.'' \<notin> set s"
    and dh: "dec_header L h = Some \<lparr>h_alg = ''HS256'', h_typ = ''JWT''\<rparr>"
    and dp: "dec_claims L p = Some stamped"
    by (simp_all add: lib_ok_def h_def p_def s_def hs256_def)
  have "split_dot token = [h, p, s]"
    unfolding tok using nd by (rule split_dot_three)
  then show ?thesis
    using sec dh dp by (simp add: signed_payload_def s_def stamped_def)
qed

lemma signed_payload_decode:
  "signed_payload L tok secret = Some d \<Longrightarrow>
     map_option d_payload (decodeToken L tok) = Some d \<and> secret \<noteq> []"
  by (auto simp: signed_payload_def decodeToken_def jwt_decode_def
           split: list.splits option.splits if_splits)

lemma generateToken_payload:
  assumes ok: "lib_ok L" and g: "generateToken L usr secret opts t = Inr token"
  shows "signed_payload L token secret =
     Some \<lparr>c_user_id = (if truthy_ident (u_id usr) then u_id usr else u_user_id usr),
           c_email = u_email usr,
           c_role = (if truthy_str (u_role usr) then u_role usr else Some ''USER''),
           c_permissions = Some (case u_permissions usr of Some ps \<Rightarrow> ps | None \<Rightarrow> []),
           c_iss = Some (issuer_or_default opts), c_aud = Some (audience_or_default opts),
           c_iat = Some t, c_exp = Some (t + expiresIn_or_default opts), c_nbf = None\<rparr>"
proof -
  from g have "jwt_sign L \<lparr>c_user_id = (if truthy_ident (u_id usr) then u_id usr else u_user_id usr),
         c_email = u_email usr,
         c_role = (if truthy_str (u_role usr) then u_role usr else Some ''USER''),
         c_permissions = (case u_permissions usr of Some ps \<Rightarrow> Some ps | None \<Rightarrow> Some []),
         c_iss = None, c_aud = None, c_iat = None, c_exp = None, c_nbf = None\<rparr>
       secret (expiresIn_or_default opts) (issuer_or_default opts) (audience_or_default opts) t
       = Inr token"
    by (simp add: generateToken_def Let_def)
  from jwt_sign_signed[OF ok this] show ?thesis
    by (simp split: option.splits)
qed

lemma generateToken_succeeds:
  "secret \<noteq> [] \<Longrightarrow> \<exists>token. generateToken L usr secret opts t = Inr token"
  by (simp add: generateToken_def jwt_sign_def Let_def)

lemma verify_claims_Inr: "verify_claims d iss aud clock = Inr d' \<Longrightarrow> d' = d"
  by (auto simp: verify_claims_def split: if_splits)

section \<open>What validateToken returns\<close>

lemma validateToken_signed:
  assumes "signed_payload L token secret = Some d"
  shows "validateToken L token secret opts clock now =
     (case verify_claims d (issuer_or_default opts) (audience_or_default opts) clock of
        Inl (TokenExpiredError m) \<Rightarrow> Invalid ''Token expired'' True
      | Inl (JsonWebTokenError m) \<Rightarrow> Invalid ''Invalid token signature'' False
      | Inl (NotBeforeError m) \<Rightarrow> Invalid m False
      | Inr dec \<Rightarrow> after_verify dec (issuer_or_default opts) (audience_or_default opts) now)"
  using signed_payload_three[OF assms] jwt_verify_signed[OF assms]
  by (simp add: validateToken_def after_verify_def Let_def split: sum.split jwt_error.split)

lemma validateToken_unsigned:
  assumes "signed_payload L token secret = None"
  shows "\<exists>e. validateToken L token secret opts clock now = Invalid e False \<and>
             e \<in> {''Invalid token format'', ''Malformed token structure'',
                  ''Invalid token signature''}"
proof -
  have "\<exists>m. jwt_verify L token secret (issuer_or_default opts) (audience_or_default opts)
          clock = Inl (JsonWebTokenError m)"
    using assms
    by (auto simp: signed_payload_def jwt_verify_def jwt_decode_def
             split: list.splits option.splits if_splits)
  then obtain m where "jwt_verify L token secret (issuer_or_default opts)
      (audience_or_default opts) clock = Inl (JsonWebTokenError m)" ..
  then show ?thesis
    by (simp add: validateToken_def Let_def)
qed

lemma find_required_all_truthy:
  "find (\<lambda>claim. \<not> claim_truthy d claim) requiredClaims = None \<longleftrightarrow>
     truthy_ident (c_user_id d) \<and> truthy_str (c_email d) \<and> truthy_str (c_role d) \<and>
     truthy_str (c_iss d) \<and> truthy_str (c_aud d) \<and> truthy_num (c_exp d) \<and>
     truthy_num (c_iat d)"
  by (simp add: requiredClaims_def claim_truthy_def)

lemma requiredClaims_find_reduced:
  assumes "truthy_str (c_iss d)" "truthy_str (c_aud d)"
  shows "find (\<lambda>claim. \<not> claim_truthy d claim) requiredClaims =
         find (\<lambda>claim. \<not> claim_truthy d claim) [''user_id'', ''email'', ''role'', ''exp'', ''iat'']"
  using assms by (simp add: requiredClaims_def claim_truthy_def)

lemma after_verify_not_expired: "\<not> expired (after_verify d iss aud now)"
  by (simp add: after_verify_def split: option.splits)

lemma after_verify_decoded:
  "valid (after_verify d iss aud now) \<Longrightarrow> decoded (after_verify d iss aud now) = Some d"
  by (auto simp: after_verify_def split: option.splits if_splits)

lemma validate_refreshable_signed:
  assumes "valid v \<or> expired v" and v: "v = validateToken L tok secret opts clock now"
  shows "\<exists>d. signed_payload L tok secret = Some d \<and> (valid v \<longrightarrow> decoded v = Some d)"
proof (cases "signed_payload L tok secret")
  case None
  from validateToken_unsigned[OF this, of opts clock now] assms show ?thesis by auto
next
  case (Some d)
  have "valid v \<longrightarrow> decoded v = Some d"
    unfolding v validateToken_signed[OF Some]
    by (auto split: sum.splits jwt_error.splits
             dest!: verify_claims_Inr simp: after_verify_decoded)
  with Some show ?thesis by blast
qed

lemma expired_iff_signed_and_past_expiry:
  "expired (validateToken L tok secret opts clock now) \<longleftrightarrow>
     (\<exists>d. signed_payload L tok secret = Some d \<and> not_before_ok d clock \<and> \<not> unexpired d clock)"
proof (cases "signed_payload L tok secret")
  case None
  from validateToken_unsigned[OF this, of opts clock now] None show ?thesis by auto
next
  case (Some d)
  show ?thesis
    unfolding validateToken_signed[OF Some]
    using after_verify_not_expired[of d "issuer_or_default opts" "audience_or_default opts" now]
    by (auto simp: Some verify_claims_def not_before_ok_def unexpired_def
             split: option.splits)
qed

lemma validateToken_same_tag:
  assumes "key \<noteq> []" "secret \<noteq> []"
    and "hs256 L key (signing_input token) = hs256 L secret (signing_input token)"
  shows "validateToken L token key opts clock now = validateToken L token secret opts clock now"
proof -
  have "jwt_verify L token key (issuer_or_default opts) (audience_or_default opts) clock =
        jwt_verify L token secret (issuer_or_default opts) (audience_or_default opts) clock"
    using assms
    by (auto simp: jwt_verify_def signing_input_def split: list.splits option.splits)
  then show ?thesis by (simp add: validateToken_def Let_def)
qed

lemma validateToken_other_tag:
  assumes sp: "signed_payload L token secret = Some d"
    and other: "key = [] \<or> hs256 L key (signing_input token) \<noteq> hs256 L secret (signing_input token)"
  shows "validateToken L token key opts clock now = Invalid ''Invalid token signature'' False"
proof -
  from sp obtain h p where parts: "split_dot token = [h, p, hs256 L secret (h @ ''.'' @ p)]"
    by (auto simp: signed_payload_def split: list.splits option.splits if_splits)
  have three: "length (split_dot token) = 3" "token \<noteq> []"
    using signed_payload_three[OF sp] by simp_all
  have "\<exists>m. jwt_verify L token key (issuer_or_default opts) (audience_or_default opts)
          clock = Inl (JsonWebTokenError m)"
    using parts other three(2)
    by (auto simp: jwt_verify_def jwt_decode_def signing_input_def split: option.splits)
  then obtain m where "jwt_verify L token key (issuer_or_default opts)
      (audience_or_default opts) clock = Inl (JsonWebTokenError m)" ..
  then show ?thesis
    using three by (simp add: validateToken_def Let_def)
qed

lemma hmac_key_block_append_zero:
  assumes "length key < 64"
  shows "hmac_key_block L (key @ [CHR 0x00]) = hmac_key_block L key"
proof -
  from assms have "64 - length key = Suc (64 - length (key @ [CHR 0x00]))" by simp
  then have "replicate (64 - length key) (CHR 0x00) =
             CHR 0x00 # replicate (64 - length (key @ [CHR 0x00])) (CHR 0x00)"
    by (simp only: replicate_Suc)
  with assms show ?thesis by (simp add: hmac_key_block_def)
qed

section \<open>The sample library meets the assumptions\<close>

lemma sample_lib_ok: "lib_ok sample_lib"
  by (simp add: lib_ok_def sample_lib_def claims_tuple_def tuple_claims_def)

lemma sample_lib_tag_eq:
  "hs256 sample_lib k m = hs256 sample_lib k' m \<longleftrightarrow>
     hmac_key_block sample_lib k = hmac_key_block sample_lib k'"
  by (simp add: hs256_def sample_lib_def)

section \<open>Issuing and validating\<close>

text \<open>
  C1. Round trip. Let the library primitives be well behaved, the identity have a
  non-empty subject id (\<^verbatim>\<open>id\<close>, or \<^verbatim>\<open>user_id\<close> when \<^verbatim>\<open>id\<close> is falsy), a non-empty email,
  a role of the role table and a permission list, and the key be non-empty. A token
  issued at time \<open>t\<close> with the default options validates, with the same key and the
  default options, to a valid outcome that returns the same subject id, email, role and
  permissions. The clock is explicit: the token is issued at a time other than the epoch
  and both clock reads of the validation come before its expiry, 8 hours after \<open>t\<close>.
\<close>

theorem C1_round_trip:
  assumes ok: "lib_ok L"
    and sid: "(if truthy_ident (u_id usr) then u_id usr else u_user_id usr) = Some sid"
             "truthy_ident (Some sid)"
    and em: "u_email usr = Some email" "email \<noteq> []"
    and ro: "u_role usr = Some role" "isValidRole role"
    and pe: "u_permissions usr = Some perms"
    and key: "secret \<noteq> []"
    and time: "0 < t" "clock < t + 28800" "now < t + 28800"
  shows "\<exists>token dec. generateToken L usr secret default_options t = Inr token \<and>
           validateToken L token secret default_options clock now =
             Valid dec (Some sid) (Some email) (Some role) perms"
proof -
  have rne: "role \<noteq> []"
    using ro(2) by (auto simp: isValidRole_def ROLES_def)
  define payload where "payload =
        \<lparr>c_user_id = Some sid, c_email = Some email, c_role = Some role,
         c_permissions = Some perms,
         c_iss = None, c_aud = None, c_iat = None, c_exp = None, c_nbf = None\<rparr>"
  define token where "token = (let input = enc_header L \<lparr>h_alg = ''HS256'', h_typ = ''JWT''\<rparr> @ ''.'' @
       enc_claims L (payload\<lparr>c_iat := Some t, c_exp := Some (t + 28800),
           c_aud := Some ''latanda-web-app'', c_iss := Some ''latanda.online''\<rparr>)
     in input @ ''.'' @ hs256 L secret input)"
  have gen: "generateToken L usr secret default_options t = Inr token"
    and sg: "jwt_sign L payload secret 28800 ''latanda.online'' ''latanda-web-app'' t = Inr token"
    using sid em ro pe key rne
    by (simp_all add: generateToken_def jwt_sign_def default_options_def payload_def token_def
        expiresIn_or_default_def issuer_or_default_def audience_or_default_def Let_def)
  define dec where "dec = payload\<lparr>c_iat := Some t, c_exp := Some (t + 28800),
           c_aud := Some ''latanda-web-app'', c_iss := Some ''latanda.online''\<rparr>"
  have sp: "signed_payload L token secret = Some dec"
    unfolding dec_def by (rule jwt_sign_signed[OF ok sg])
  have vc: "verify_claims dec ''latanda.online'' ''latanda-web-app'' clock = Inr dec"
    using time by (simp add: verify_claims_def dec_def payload_def)
  have fn: "find (\<lambda>claim. \<not> claim_truthy dec claim) requiredClaims = None"
    using sid em rne time by (simp add: find_required_all_truthy dec_def payload_def)
  have "validateToken L token secret default_options clock now =
          Valid dec (Some sid) (Some email) (Some role) perms"
    using time
    by (simp add: validateToken_signed[OF sp] default_options_def issuer_or_default_def
        audience_or_default_def vc after_verify_def fn) (simp add: dec_def payload_def)
  with gen show ?thesis by blast
qed

theorem C1_round_trip_witness:
  "\<exists>token dec. generateToken sample_lib alice ''test-secret'' default_options 1000 = Inr token \<and>
     validateToken sample_lib token ''test-secret'' default_options 1000 1001 =
       Valid dec (Some (IdStr ''user_123'')) (Some ''test@latanda.online'') (Some ''USER'') []"
  by (rule C1_round_trip[OF sample_lib_ok])
     (simp_all add: alice_def isValidRole_def ROLES_def)

text \<open>
  C2, as stated, fails: the key \<^verbatim>\<open>test-secret\<close> followed by a zero byte is a different
  key with the same HMAC key block, and a token issued under \<^verbatim>\<open>test-secret\<close> is valid
  under it.
\<close>

theorem C2_zero_padded_key_accepted_counterexample:
  "''test-secret'' @ [CHR 0x00] \<noteq> ''test-secret'' \<and>
   (case generateToken sample_lib alice ''test-secret'' default_options 1000 of
      Inl e \<Rightarrow> False
    | Inr token \<Rightarrow>
        validateToken sample_lib token (''test-secret'' @ [CHR 0x00]) default_options
            1000 1001 =
          Valid \<lparr>c_user_id = Some (IdStr ''user_123''),
                  c_email = Some ''test@latanda.online'', c_role = Some ''USER'',
                  c_permissions = Some [], c_iss = Some ''latanda.online'',
                  c_aud = Some ''latanda-web-app'', c_iat = Some 1000,
                  c_exp = Some 29800, c_nbf = None\<rparr>
            (Some (IdStr ''user_123'')) (Some ''test@latanda.online'') (Some ''USER'') [])"
proof -
  obtain token where g: "generateToken sample_lib alice ''test-secret'' default_options 1000 = Inr token"
    by (simp add: generateToken_def jwt_sign_def Let_def)
  let ?d = "\<lparr>c_user_id = Some (IdStr ''user_123''), c_email = Some ''test@latanda.online'',
             c_role = Some ''USER'', c_permissions = Some [],
             c_iss = Some ''latanda.online'', c_aud = Some ''latanda-web-app'',
             c_iat = Some 1000, c_exp = Some 29800, c_nbf = None\<rparr>"
  have sp: "signed_payload sample_lib token ''test-secret'' = Some ?d"
    using generateToken_payload[OF sample_lib_ok g]
    by (simp add: alice_def default_options_def issuer_or_default_def
        audience_or_default_def expiresIn_or_default_def)
  have own: "validateToken sample_lib token ''test-secret'' default_options 1000 1001 =
          Valid ?d (Some (IdStr ''user_123'')) (Some ''test@latanda.online'') (Some ''USER'') []"
    by (simp add: validateToken_signed[OF sp] verify_claims_def default_options_def
        issuer_or_default_def audience_or_default_def after_verify_def requiredClaims_def
        claim_truthy_def)
  have "hmac_key_block sample_lib (''test-secret'' @ [CHR 0x00]) =
        hmac_key_block sample_lib ''test-secret''"
    by (rule hmac_key_block_append_zero) simp
  then have "hs256 sample_lib (''test-secret'' @ [CHR 0x00]) (signing_input token) =
             hs256 sample_lib ''test-secret'' (signing_input token)"
    by (simp only: hs256_def)
  then have "validateToken sample_lib token (''test-secret'' @ [CHR 0x00]) default_options
               1000 1001 =
             validateToken sample_lib token ''test-secret'' default_options 1000 1001"
    by (intro validateToken_same_tag) simp_all
  with g own show ?thesis by simp
qed

text \<open>
  C2, amended. For every token issued under one signing key and every key presented to
  \<open>validateToken\<close>, with any options and at any time: unless the presented key is
  non-empty and gives the token's signing input the same HMAC-SHA256 tag as the signing
  key, the outcome is invalid with the reason \<^verbatim>\<open>Invalid token signature\<close> and without the
  expiry flag; otherwise the outcome is the one under the signing key. The second case
  holds in particular for every non-empty key with the same HMAC key block as the signing
  key, such as the signing key followed by zero bytes.
\<close>

theorem C2_wrong_key_rejected_unless_same_tag:
  assumes ok: "lib_ok L"
    and gen: "generateToken L usr secret opts t = Inr token"
  shows "validateToken L token key opts' clock now =
           (if key \<noteq> [] \<and>
               hs256 L key (signing_input token) = hs256 L secret (signing_input token)
            then validateToken L token secret opts' clock now
            else Invalid ''Invalid token signature'' False) \<and>
         (key \<noteq> [] \<and> hmac_key_block L key = hmac_key_block L secret \<longrightarrow>
            validateToken L token key opts' clock now =
              validateToken L token secret opts' clock now)"
proof -
  obtain payload expIn iss aud where sg: "jwt_sign L payload secret expIn iss aud t = Inr token"
    using gen by (auto simp: generateToken_def Let_def)
  from jwt_sign_signed[OF ok sg] obtain d where sp: "signed_payload L token secret = Some d"
    by blast
  from signed_payload_decode[OF sp] have sec: "secret \<noteq> []" by simp
  have first: "validateToken L token key opts' clock now =
           (if key \<noteq> [] \<and>
               hs256 L key (signing_input token) = hs256 L secret (signing_input token)
            then validateToken L token secret opts' clock now
            else Invalid ''Invalid token signature'' False)"
  proof (cases "key \<noteq> [] \<and>
               hs256 L key (signing_input token) = hs256 L secret (signing_input token)")
    case True
    with sec have "validateToken L token key opts' clock now =
                   validateToken L token secret opts' clock now"
      by (intro validateToken_same_tag) simp_all
    with True show ?thesis by simp
  next
    case False
    then have "key = [] \<or>
        hs256 L key (signing_input token) \<noteq> hs256 L secret (signing_input token)"
      by blast
    from validateToken_other_tag[OF sp this, of opts' clock now] False
    show ?thesis by auto
  qed
  have second: "key \<noteq> [] \<and> hmac_key_block L key = hmac_key_block L secret \<longrightarrow>
            validateToken L token key opts' clock now =
              validateToken L token secret opts' clock now"
  proof
    assume a: "key \<noteq> [] \<and> hmac_key_block L key = hmac_key_block L secret"
    then have "hs256 L key (signing_input token) = hs256 L secret (signing_input token)"
      by (simp add: hs256_def)
    with a sec show "validateToken L token key opts' clock now =
                     validateToken L token secret opts' clock now"
      by (intro validateToken_same_tag) simp_all
  qed
  from first second show ?thesis by blast
qed

theorem C2_wrong_key_rejected_unless_same_tag_witness:
  "\<exists>token. generateToken sample_lib alice ''test-secret'' default_options 1000 = Inr token \<and>
     validateToken sample_lib token ''wrong-secret'' default_options 1000 1001 =
       Invalid ''Invalid token signature'' False"
proof -
  obtain token where g: "generateToken sample_lib alice ''test-secret'' default_options 1000 = Inr token"
    by (simp add: generateToken_def jwt_sign_def Let_def)
  have "hs256 sample_lib ''wrong-secret'' (signing_input token) \<noteq>
        hs256 sample_lib ''test-secret'' (signing_input token)"
    by (simp add: sample_lib_tag_eq hmac_key_block_def)
  with C2_wrong_key_rejected_unless_same_tag[OF sample_lib_ok g, of "''wrong-secret''"
         default_options 1000 1001]
  have "validateToken sample_lib token ''wrong-secret'' default_options 1000 1001 =
       Invalid ''Invalid token signature'' False"
    by simp
  with g show ?thesis by blast
qed

section \<open>Refreshing\<close>

lemma refreshToken_unsigned:
  assumes "signed_payload L tok secret = None"
  shows "refreshToken L tok secret opts clock now clock' =
           Inr (Refused ''Invalid token cannot be refreshed'')"
proof -
  from validateToken_unsigned[OF assms, of opts clock now]
  obtain e where "validateToken L tok secret opts clock now = Invalid e False" by blast
  then show ?thesis by (simp add: refreshToken_def Let_def)
qed

text \<open>
  C3. What the code does where the claim expects a refresh. Take a correctly signed
  token, active, addressed to the expected issuer and audience, with every mandatory
  claim truthy, whose \<open>exp\<close> lies after the time \<^verbatim>\<open>jwt.verify\<close> reads but not after the
  time line 81 reads. \<open>validateToken\<close> fails on it for expiry alone, with the reason
  \<^verbatim>\<open>Token expired\<close> of line 83, which unlike the catch block of line 105 does not set
  \<^verbatim>\<open>expired: true\<close>; \<open>refreshToken\<close> tests that flag and returns its error, with no new
  token.
\<close>

theorem C3_expiry_recheck_is_refused:
  assumes sp: "signed_payload L tok secret = Some d"
    and live: "not_before_ok d clock"
    and expect: "issuer_or_default opts \<noteq> []" "audience_or_default opts \<noteq> []"
    and addressed: "c_iss d = Some (issuer_or_default opts)"
                   "c_aud d = Some (audience_or_default opts)"
    and present: "truthy_ident (c_user_id d)" "truthy_str (c_email d)"
                 "truthy_str (c_role d)" "truthy_num (c_iat d)"
    and race: "c_exp d = Some e" "e \<noteq> 0" "clock < e" "e \<le> now"
  shows "validateToken L tok secret opts clock now = Invalid ''Token expired'' False \<and>
         refreshToken L tok secret opts clock now clock' =
           Inr (Refused ''Invalid token cannot be refreshed'')"
proof -
  have vc: "verify_claims d (issuer_or_default opts) (audience_or_default opts) clock = Inr d"
    using live addressed race
    by (auto simp: verify_claims_def not_before_ok_def split: option.splits)
  have fn: "find (\<lambda>claim. \<not> claim_truthy d claim) requiredClaims = None"
    using expect addressed present race by (simp add: find_required_all_truthy)
  have v: "validateToken L tok secret opts clock now = Invalid ''Token expired'' False"
    using race by (simp add: validateToken_signed[OF sp] vc after_verify_def fn)
  then have "refreshToken L tok secret opts clock now clock' =
           Inr (Refused ''Invalid token cannot be refreshed'')"
    by (simp add: refreshToken_def Let_def)
  with v show ?thesis by blast
qed

theorem C3_expiry_recheck_is_refused_witness:
  "\<exists>token. generateToken sample_lib alice ''test-secret'' default_options 1000 = Inr token \<and>
     signed_payload sample_lib token ''test-secret'' =
       Some \<lparr>c_user_id = Some (IdStr ''user_123''), c_email = Some ''test@latanda.online'',
             c_role = Some ''USER'', c_permissions = Some [],
             c_iss = Some ''latanda.online'', c_aud = Some ''latanda-web-app'',
             c_iat = Some 1000, c_exp = Some 29800, c_nbf = None\<rparr> \<and>
     validateToken sample_lib token ''test-secret'' default_options 29799 29800 =
       Invalid ''Token expired'' False \<and>
     refreshToken sample_lib token ''test-secret'' default_options 29799 29800 29800 =
       Inr (Refused ''Invalid token cannot be refreshed'')"
proof -
  obtain token where g: "generateToken sample_lib alice ''test-secret'' default_options 1000 = Inr token"
    by (simp add: generateToken_def jwt_sign_def Let_def)
  let ?d = "\<lparr>c_user_id = Some (IdStr ''user_123''), c_email = Some ''test@latanda.online'',
             c_role = Some ''USER'', c_permissions = Some [],
             c_iss = Some ''latanda.online'', c_aud = Some ''latanda-web-app'',
             c_iat = Some 1000, c_exp = Some 29800, c_nbf = None\<rparr>"
  have sp: "signed_payload sample_lib token ''test-secret'' = Some ?d"
    using generateToken_payload[OF sample_lib_ok g]
    by (simp add: alice_def default_options_def issuer_or_default_def
        audience_or_default_def expiresIn_or_default_def)
  have "validateToken sample_lib token ''test-secret'' default_options 29799 29800 =
          Invalid ''Token expired'' False \<and>
        refreshToken sample_lib token ''test-secret'' default_options 29799 29800 29800 =
          Inr (Refused ''Invalid token cannot be refreshed'')"
    by (rule C3_expiry_recheck_is_refused[OF sp, where e = 29800])
       (simp_all add: not_before_ok_def default_options_def issuer_or_default_def
          audience_or_default_def)
  with g sp show ?thesis by blast
qed

section \<open>Issuer, audience and mandatory claims\<close>

text \<open>
  C4. What the code does where the claim expects the reasons \<^verbatim>\<open>Invalid issuer\<close> and
  \<^verbatim>\<open>Invalid audience\<close>: for a correctly signed, active, unexpired token whose \<open>iss\<close>
  or \<open>aud\<close> differs from the expected, non-empty value, \<open>validateToken\<close> returns the
  reason \<^verbatim>\<open>Invalid token signature\<close>. The mismatch is raised inside \<^verbatim>\<open>jwt.verify\<close> as a
  \<open>JsonWebTokenError\<close>, before the mandatory claims are looked at, and the catch block
  reports every such error as a signature failure.
\<close>

theorem C4_mismatch_reported_as_signature:
  assumes sp: "signed_payload L token secret = Some d"
    and live: "not_before_ok d clock" "unexpired d clock"
    and expect: "issuer_or_default opts \<noteq> []" "audience_or_default opts \<noteq> []"
    and mismatch: "c_iss d \<noteq> Some (issuer_or_default opts) \<or>
                   c_aud d \<noteq> Some (audience_or_default opts)"
  shows "validateToken L token secret opts clock now = Invalid ''Invalid token signature'' False"
proof -
  have "\<exists>m. verify_claims d (issuer_or_default opts) (audience_or_default opts) clock =
          Inl (JsonWebTokenError m)"
    using live expect mismatch
    by (auto simp: verify_claims_def not_before_ok_def unexpired_def split: option.splits)
  then show ?thesis
    by (auto simp: validateToken_signed[OF sp])
qed

theorem C4_mismatch_reported_as_signature_witness:
  "\<exists>token d. generateToken sample_lib alice ''test-secret'' evil_issuer 1000 = Inr token \<and>
     signed_payload sample_lib token ''test-secret'' = Some d \<and>
     c_iss d = Some ''evil.example'' \<and> c_exp d = Some 29800 \<and>
     validateToken sample_lib token ''test-secret'' default_options 1000 1000 =
       Invalid ''Invalid token signature'' False"
proof -
  obtain token where g: "generateToken sample_lib alice ''test-secret'' evil_issuer 1000 = Inr token"
    by (simp add: generateToken_def jwt_sign_def Let_def)
  note sp = generateToken_payload[OF sample_lib_ok g]
  have "validateToken sample_lib token ''test-secret'' default_options 1000 1000 =
       Invalid ''Invalid token signature'' False"
    by (rule C4_mismatch_reported_as_signature[OF sp])
       (simp_all add: not_before_ok_def unexpired_def default_options_def evil_issuer_def
          issuer_or_default_def audience_or_default_def expiresIn_or_default_def)
  with g sp show ?thesis
    by (simp add: evil_issuer_def issuer_or_default_def expiresIn_or_default_def)
qed

text \<open>
  C5, as stated, fails: a correctly signed, unexpired token whose payload holds all
  seven mandatory claims, the email being the empty string, is rejected with
  \<^verbatim>\<open>Missing required claim: email\<close>.
\<close>

theorem C5_present_but_empty_counterexample:
  "(case generateToken sample_lib no_email ''test-secret'' default_options 1000 of
      Inl e \<Rightarrow> False
    | Inr token \<Rightarrow>
        signed_payload sample_lib token ''test-secret'' =
          Some \<lparr>c_user_id = Some (IdStr ''user_123''), c_email = Some [],
                c_role = Some ''USER'', c_permissions = Some [],
                c_iss = Some ''latanda.online'', c_aud = Some ''latanda-web-app'',
                c_iat = Some 1000, c_exp = Some 29800, c_nbf = None\<rparr> \<and>
        validateToken sample_lib token ''test-secret'' default_options 1000 1000 =
          Invalid ''Missing required claim: email'' False)"
proof -
  obtain token where g: "generateToken sample_lib no_email ''test-secret'' default_options 1000 = Inr token"
    by (simp add: generateToken_def jwt_sign_def Let_def)
  note sp = generateToken_payload[OF sample_lib_ok g]
  let ?d = "\<lparr>c_user_id = Some (IdStr ''user_123''), c_email = Some [], c_role = Some ''USER'',
             c_permissions = Some [], c_iss = Some ''latanda.online'',
             c_aud = Some ''latanda-web-app'', c_iat = Some 1000, c_exp = Some 29800,
             c_nbf = None\<rparr>"
  have sp': "signed_payload sample_lib token ''test-secret'' = Some ?d"
    using sp by (simp add: no_email_def default_options_def issuer_or_default_def
        audience_or_default_def expiresIn_or_default_def)
  have v: "validateToken sample_lib token ''test-secret'' default_options 1000 1000 =
          Invalid ''Missing required claim: email'' False"
    by (simp add: validateToken_signed[OF sp'] verify_claims_def default_options_def
        issuer_or_default_def audience_or_default_def after_verify_def requiredClaims_def
        claim_truthy_def)
  from g sp' v show ?thesis by simp
qed

text \<open>
  C5, amended. For every correctly signed, active, unexpired token whose \<open>iss\<close> and
  \<open>aud\<close> equal the expected, non-empty issuer and audience, \<open>validateToken\<close> fails with
  \<^verbatim>\<open>Missing required claim: <name>\<close> exactly when one of \<open>user_id\<close>, \<open>email\<close>, \<open>role\<close>,
  \<open>exp\<close>, \<open>iat\<close> is absent or falsy (empty string, zero); the name is the first such
  claim in that order. A token in which each of them is truthy does not fail with a
  missing claim.
\<close>

theorem C5_missing_claim_iff_falsy:
  assumes sp: "signed_payload L token secret = Some d"
    and live: "not_before_ok d clock" "unexpired d clock"
    and expect: "issuer_or_default opts \<noteq> []" "audience_or_default opts \<noteq> []"
    and addressed: "c_iss d = Some (issuer_or_default opts)"
                   "c_aud d = Some (audience_or_default opts)"
  shows "(case find (\<lambda>claim. \<not> claim_truthy d claim)
                 [''user_id'', ''email'', ''role'', ''exp'', ''iat''] of
            Some name \<Rightarrow>
              validateToken L token secret opts clock now =
                Invalid (''Missing required claim: '' @ name) False
          | None \<Rightarrow>
              (\<forall>name. validateToken L token secret opts clock now \<noteq>
                 Invalid (''Missing required claim: '' @ name) False)) \<and>
         (find (\<lambda>claim. \<not> claim_truthy d claim)
                 [''user_id'', ''email'', ''role'', ''exp'', ''iat''] = None \<longleftrightarrow>
            truthy_ident (c_user_id d) \<and> truthy_str (c_email d) \<and> truthy_str (c_role d) \<and>
            truthy_num (c_exp d) \<and> truthy_num (c_iat d))"
proof -
  have vc: "verify_claims d (issuer_or_default opts) (audience_or_default opts) clock = Inr d"
    using live addressed
    by (auto simp: verify_claims_def not_before_ok_def unexpired_def split: option.splits)
  have tr: "truthy_str (c_iss d)" "truthy_str (c_aud d)"
    using expect addressed by simp_all
  have v: "validateToken L token secret opts clock now =
           after_verify d (issuer_or_default opts) (audience_or_default opts) now"
    by (simp add: validateToken_signed[OF sp] vc)
  have second: "find (\<lambda>claim. \<not> claim_truthy d claim)
                 [''user_id'', ''email'', ''role'', ''exp'', ''iat''] = None \<longleftrightarrow>
            truthy_ident (c_user_id d) \<and> truthy_str (c_email d) \<and> truthy_str (c_role d) \<and>
            truthy_num (c_exp d) \<and> truthy_num (c_iat d)"
    by (simp add: claim_truthy_def)
  have first: "(case find (\<lambda>claim. \<not> claim_truthy d claim)
                 [''user_id'', ''email'', ''role'', ''exp'', ''iat''] of
            Some name \<Rightarrow>
              validateToken L token secret opts clock now =
                Invalid (''Missing required claim: '' @ name) False
          | None \<Rightarrow>
              (\<forall>name. validateToken L token secret opts clock now \<noteq>
                 Invalid (''Missing required claim: '' @ name) False))"
    unfolding v after_verify_def requiredClaims_find_reduced[OF tr]
    by (auto split: option.splits)
  from first second show ?thesis by blast
qed

theorem C5_missing_claim_iff_falsy_witness:
  "\<exists>token. generateToken sample_lib alice ''test-secret'' default_options 1000 = Inr token \<and>
     (\<forall>name. validateToken sample_lib token ''test-secret'' default_options 1000 1000 \<noteq>
        Invalid (''Missing required claim: '' @ name) False)"
proof -
  obtain token where g: "generateToken sample_lib alice ''test-secret'' default_options 1000 = Inr token"
    by (simp add: generateToken_def jwt_sign_def Let_def)
  let ?d = "\<lparr>c_user_id = Some (IdStr ''user_123''), c_email = Some ''test@latanda.online'',
             c_role = Some ''USER'', c_permissions = Some [],
             c_iss = Some ''latanda.online'', c_aud = Some ''latanda-web-app'',
             c_iat = Some 1000, c_exp = Some 29800, c_nbf = None\<rparr>"
  have sp: "signed_payload sample_lib token ''test-secret'' = Some ?d"
    using generateToken_payload[OF sample_lib_ok g]
    by (simp add: alice_def default_options_def issuer_or_default_def
        audience_or_default_def expiresIn_or_default_def)
  have "\<forall>name. validateToken sample_lib token ''test-secret'' default_options 1000 1000 \<noteq>
        Invalid (''Missing required claim: '' @ name) False"
    using C5_missing_claim_iff_falsy[OF sp, of 1000 default_options 1000]
    by (simp add: not_before_ok_def unexpired_def default_options_def issuer_or_default_def
        audience_or_default_def claim_truthy_def)
  with g show ?thesis by blast
qed

section \<open>The request gates\<close>

lemma createAuthMiddleware_Inr:
  "createAuthMiddleware L config = Inr amw \<Longrightarrow>
     \<exists>secret. jwtSecret config = Some secret \<and> secret \<noteq> [] \<and>
       amw = authMiddleware L secret
               (case cfg_issuer config of None \<Rightarrow> ''latanda.online'' | Some i \<Rightarrow> i)
               (case cfg_audience config of None \<Rightarrow> ''latanda-web-app'' | Some a \<Rightarrow> a)
               (onUnauthorized config)"
  by (cases "jwtSecret config") (auto simp: createAuthMiddleware_def Let_def split: if_splits)

lemma permissionMiddleware_no_custom: "permissionMiddleware perms reqAll req \<noteq> Custom x"
  by (auto simp: permissionMiddleware_def Let_def split: option.splits sum.splits)

lemma roleMiddleware_no_custom: "roleMiddleware minimumRole req \<noteq> Custom x"
  by (auto simp: roleMiddleware_def Let_def split: option.splits)

lemma ownershipMiddleware_no_custom: "ownershipMiddleware acc req \<noteq> Custom x"
  by (auto simp: ownershipMiddleware_def split: option.splits sum.splits accessor.splits)

lemma authMiddleware_status:
  "authMiddleware L secret iss aud None req clock now = Respond st body \<Longrightarrow>
     status_fits_code st body"
  by (auto simp: authMiddleware_def status_fits_code_def default_status_def Let_def
           split: option.splits validation.splits)

lemma permissionMiddleware_status:
  "permissionMiddleware perms reqAll req = Respond st body \<Longrightarrow> status_fits_code st body"
  by (auto simp: permissionMiddleware_def status_fits_code_def default_status_def Let_def
           split: option.splits sum.splits if_splits)

lemma roleMiddleware_status:
  "roleMiddleware minimumRole req = Respond st body \<Longrightarrow> status_fits_code st body"
  by (auto simp: roleMiddleware_def status_fits_code_def default_status_def Let_def
           split: option.splits if_splits)

lemma ownershipMiddleware_status:
  "ownershipMiddleware acc req = Respond st body \<Longrightarrow> status_fits_code st body"
  by (auto simp: ownershipMiddleware_def status_fits_code_def default_status_def
           split: option.splits if_splits sum.splits accessor.splits)

text \<open>
  C8, as stated, fails: the permission gate takes no failure handler. Built with an
  options object that carries one, it still answers a rejected request with its default
  403 response.
\<close>

theorem C8_permission_gate_ignores_handler_counterexample:
  "requirePermission (OnePermission ''user_management'')
       \<lparr>requireAll = None, po_onUnauthorized = Some report_code\<rparr> plain_user =
     (Respond 403 [(''success'', JBool False), (''error'', JStr ''Insufficient permissions''),
                   (''code'', JStr ''FORBIDDEN''), (''required'', JStrs [''user_management'']),
                   (''userRole'', JStr ''USER'')] :: string outcome)"
  by (simp add: requirePermission_def permissionMiddleware_def plain_user_def role_key_def
      role_json_def hasPermission_def ROLES_get_def ROLES_def)

text \<open>
  C8, amended. Only the required-auth stage takes a custom failure handler
  (\<^verbatim>\<open>onUnauthorized\<close>). When that stage rejects a request, for a missing bearer token
  or for a token that does not validate, the handler receives the original request (and
  response) and the error record with the message and the code \<^verbatim>\<open>NO_TOKEN\<close> or
  \<^verbatim>\<open>INVALID_TOKEN\<close>, and what it returns is the result of the stage; no default response
  is sent. The permission, role and ownership gates never hand a request to a custom
  handler.
\<close>

theorem C8_handler_only_in_auth_stage:
  "(createAuthMiddleware L config = Inr amw \<and> onUnauthorized config = Some (h::'h handler) \<longrightarrow>
      (case bearer_token req of
         None \<Rightarrow>
           amw req clock now =
             Custom (h req \<lparr>message = ''Missing or invalid Authorization header'',
                             code = ''NO_TOKEN''\<rparr>)
       | Some token \<Rightarrow>
           (case jwtSecret config of
              None \<Rightarrow> False
            | Some secret \<Rightarrow>
                (case validateToken L token secret (config_options config) clock now of
                   Invalid e ex \<Rightarrow>
                     amw req clock now = Custom (h req \<lparr>message = e, code = ''INVALID_TOKEN''\<rparr>)
                 | Valid d uid em ro ps \<Rightarrow>
                     amw req clock now =
                       Next (req\<lparr>req_user := Some \<lparr>ru_id = uid, ru_email = em, ru_role = ro,
                                                      ru_permissions = ps\<rparr>,
                                 req_token := Some token\<rparr>))))) \<and>
   (\<forall>x::'h. requirePermission requiredPermissions popts req \<noteq> Custom x) \<and>
   (requireRole minimumRole = Inr rmw \<longrightarrow> (\<forall>x::'h. rmw req \<noteq> Custom x)) \<and>
   (\<forall>x::'h. requireOwnership getResourceOwnerId req \<noteq> Custom x)"
proof -
  have a: "createAuthMiddleware L config = Inr amw \<and> onUnauthorized config = Some h \<longrightarrow>
      (case bearer_token req of
         None \<Rightarrow>
           amw req clock now =
             Custom (h req \<lparr>message = ''Missing or invalid Authorization header'',
                             code = ''NO_TOKEN''\<rparr>)
       | Some token \<Rightarrow>
           (case jwtSecret config of
              None \<Rightarrow> False
            | Some secret \<Rightarrow>
                (case validateToken L token secret (config_options config) clock now of
                   Invalid e ex \<Rightarrow>
                     amw req clock now = Custom (h req \<lparr>message = e, code = ''INVALID_TOKEN''\<rparr>)
                 | Valid d uid em ro ps \<Rightarrow>
                     amw req clock now =
                       Next (req\<lparr>req_user := Some \<lparr>ru_id = uid, ru_email = em, ru_role = ro,
                                                      ru_permissions = ps\<rparr>,
                                 req_token := Some token\<rparr>))))"
    by (auto dest!: createAuthMiddleware_Inr
             simp: authMiddleware_def config_options_def Let_def
             split: option.splits validation.splits)
  have b: "\<forall>x::'h. requirePermission requiredPermissions popts req \<noteq> Custom x"
    by (simp add: requirePermission_def Let_def permissionMiddleware_no_custom)
  have c: "requireRole minimumRole = Inr rmw \<longrightarrow> (\<forall>x::'h. rmw req \<noteq> Custom x)"
    by (auto simp: requireRole_def roleMiddleware_no_custom split: if_splits)
  have d: "\<forall>x::'h. requireOwnership getResourceOwnerId req \<noteq> Custom x"
    by (simp add: requireOwnership_def ownershipMiddleware_no_custom)
  from a b c d show ?thesis by blast
qed

theorem C8_handler_only_in_auth_stage_witness:
  "\<exists>amw. createAuthMiddleware sample_lib sample_config = Inr amw \<and>
     amw anonymous 1000 1000 = Custom ''NO_TOKEN'' \<and>
     (\<forall>x. (requireRole ''ADMIN'' :: js_error + (request \<Rightarrow> string outcome)) =
            Inr (roleMiddleware ''ADMIN'') \<and>
          (roleMiddleware ''ADMIN'' plain_user :: string outcome) \<noteq> Custom x)"
proof -
  obtain amw where c: "createAuthMiddleware sample_lib sample_config = Inr amw"
    by (simp add: createAuthMiddleware_def sample_config_def Let_def)
  have h: "onUnauthorized sample_config = Some report_code"
    by (simp add: sample_config_def)
  have r: "(requireRole ''ADMIN'' :: js_error + (request \<Rightarrow> string outcome)) =
            Inr (roleMiddleware ''ADMIN'')"
    by (simp add: requireRole_def isValidRole_def ROLES_def)
  from C8_handler_only_in_auth_stage[where L = sample_lib and config = sample_config
        and amw = amw and h = report_code and req = anonymous and clock = 1000 and now = 1000
        and requiredPermissions = "OnePermission ''user_management''"
        and popts = "\<lparr>requireAll = None\<rparr>" and minimumRole = "''ADMIN''"
        and rmw = "roleMiddleware ''ADMIN''" and getResourceOwnerId = "AccessorValue None"] c h
  have "amw anonymous 1000 1000 = Custom ''NO_TOKEN''"
    by (simp add: bearer_token_def anonymous_def report_code_def)
  moreover
  from C8_handler_only_in_auth_stage[where L = sample_lib and config = sample_config
        and amw = amw and h = report_code and req = plain_user and clock = 1000 and now = 1000
        and requiredPermissions = "OnePermission ''user_management''"
        and popts = "\<lparr>requireAll = None\<rparr>" and minimumRole = "''ADMIN''"
        and rmw = "roleMiddleware ''ADMIN''" and getResourceOwnerId = "AccessorValue None"] r
  have "\<forall>x. (roleMiddleware ''ADMIN'' plain_user :: string outcome) \<noteq> Custom x"
    by blast
  ultimately show ?thesis using c r by blast
qed

text \<open>
  C9. Building the role gate with a name other than ADMIN, MIT, IT, USER raises
  \<^verbatim>\<open>Invalid role: <name>. Must be ADMIN, MIT, IT, or USER\<close> at construction, before
  any request is seen; building it with one of the four names returns the middleware.
\<close>

theorem C9_requireRole_checks_name_at_construction:
  "(minimumRole \<notin> {''ADMIN'', ''MIT'', ''IT'', ''USER''} \<longrightarrow>
      requireRole minimumRole =
        Inl (Error (''Invalid role: '' @ minimumRole @ ''. Must be ADMIN, MIT, IT, or USER''))) \<and>
   (minimumRole \<in> {''ADMIN'', ''MIT'', ''IT'', ''USER''} \<longrightarrow>
      requireRole minimumRole = Inr (roleMiddleware minimumRole))"
  by (auto simp: requireRole_def isValidRole_def ROLES_def)

theorem C9_requireRole_checks_name_at_construction_witness:
  "(requireRole ''INVALID_ROLE'' :: js_error + (request \<Rightarrow> unit outcome)) =
     Inl (Error ''Invalid role: INVALID_ROLE. Must be ADMIN, MIT, IT, or USER'') \<and>
   (requireRole ''MIT'' :: js_error + (request \<Rightarrow> unit outcome)) = Inr (roleMiddleware ''MIT'')"
  using C9_requireRole_checks_name_at_construction[of "''INVALID_ROLE''"]
        C9_requireRole_checks_name_at_construction[of "''MIT''"]
  by simp

text \<open>
  C10. Whenever a gate built without a custom handler answers a request with a response
  of its own, the status is the one fixed by the response's code: 401 for NO_TOKEN,
  INVALID_TOKEN and NO_AUTH, 403 for FORBIDDEN, INSUFFICIENT_ROLE and NOT_OWNER, 500 for
  OWNERSHIP_CHECK_FAILED.
\<close>

theorem C10_default_status_by_code:
  "(createAuthMiddleware L config = Inr amw \<and> onUnauthorized config = None \<and>
      amw req clock now = (Respond st body :: 'h outcome) \<longrightarrow> status_fits_code st body) \<and>
   (requirePermission requiredPermissions popts req = (Respond st body :: 'h outcome) \<longrightarrow>
      status_fits_code st body) \<and>
   (requireRole minimumRole = Inr rmw \<and> rmw req = (Respond st body :: 'h outcome) \<longrightarrow>
      status_fits_code st body) \<and>
   (requireOwnership getResourceOwnerId req = (Respond st body :: 'h outcome) \<longrightarrow>
      status_fits_code st body)"
proof -
  have a: "createAuthMiddleware L config = Inr amw \<and> onUnauthorized config = None \<and>
      amw req clock now = (Respond st body :: 'h outcome) \<longrightarrow> status_fits_code st body"
    by (auto simp: createAuthMiddleware_def Let_def split: if_splits
             dest: authMiddleware_status)
  have b: "requirePermission requiredPermissions popts req = (Respond st body :: 'h outcome) \<longrightarrow>
      status_fits_code st body"
    by (auto simp: requirePermission_def Let_def dest: permissionMiddleware_status)
  have c: "requireRole minimumRole = Inr rmw \<and> rmw req = (Respond st body :: 'h outcome) \<longrightarrow>
      status_fits_code st body"
    by (auto simp: requireRole_def split: if_splits dest: roleMiddleware_status)
  have d: "requireOwnership getResourceOwnerId req = (Respond st body :: 'h outcome) \<longrightarrow>
      status_fits_code st body"
    by (auto simp: requireOwnership_def dest: ownershipMiddleware_status)
  from a b c d show ?thesis by blast
qed

theorem C10_default_status_by_code_witness:
  "status_fits_code 401 [(''success'', JBool False), (''error'', JStr ''Authentication required''),
                         (''code'', JStr ''NO_TOKEN'')] \<and>
   status_fits_code 403 [(''success'', JBool False), (''error'', JStr ''Insufficient permissions''),
                   (''code'', JStr ''FORBIDDEN''), (''required'', JStrs [''user_management'']),
                   (''userRole'', JStr ''USER'')] \<and>
   status_fits_code 403 [(''success'', JBool False),
                         (''error'', JStr ''Requires ADMIN role or higher''),
                         (''code'', JStr ''INSUFFICIENT_ROLE''), (''required'', JStr ''ADMIN''),
                         (''current'', JStr ''USER'')] \<and>
   status_fits_code 500 [(''success'', JBool False),
                         (''error'', JStr ''Failed to verify resource ownership''),
                         (''code'', JStr ''OWNERSHIP_CHECK_FAILED'')]"
proof -
  let ?cfg = "\<lparr>jwtSecret = Some ''test-secret'', cfg_issuer = None, cfg_audience = None,
               onUnauthorized = None\<rparr> :: unit config"
  let ?amw = "authMiddleware sample_lib ''test-secret'' ''latanda.online'' ''latanda-web-app'' None
                :: request \<Rightarrow> int \<Rightarrow> int \<Rightarrow> unit outcome"
  let ?b1 = "[(''success'', JBool False), (''error'', JStr ''Authentication required''),
                         (''code'', JStr ''NO_TOKEN'')]"
  have "createAuthMiddleware sample_lib ?cfg = Inr ?amw \<and> onUnauthorized ?cfg = None \<and>
        ?amw anonymous 1000 1000 = Respond 401 ?b1"
    by (simp add: createAuthMiddleware_def authMiddleware_def bearer_token_def anonymous_def
        Let_def)
  with C10_default_status_by_code[of sample_lib ?cfg ?amw anonymous 1000 1000 401 ?b1]
  have one: "status_fits_code 401 ?b1" by blast
  let ?b2 = "[(''success'', JBool False), (''error'', JStr ''Insufficient permissions''),
                   (''code'', JStr ''FORBIDDEN''), (''required'', JStrs [''user_management'']),
                   (''userRole'', JStr ''USER'')]"
  have "(requirePermission (OnePermission ''user_management'') \<lparr>requireAll = None\<rparr> plain_user
           :: unit outcome) = Respond 403 ?b2"
    by (simp add: requirePermission_def permissionMiddleware_def plain_user_def role_key_def
      role_json_def hasPermission_def ROLES_get_def ROLES_def)
  with C10_default_status_by_code[where requiredPermissions = "OnePermission ''user_management''"
         and popts = "\<lparr>requireAll = None\<rparr>" and req = plain_user and st = 403 and body = ?b2]
  have two: "status_fits_code 403 ?b2" by blast
  let ?b3 = "[(''success'', JBool False),
                         (''error'', JStr ''Requires ADMIN role or higher''),
                         (''code'', JStr ''INSUFFICIENT_ROLE''), (''required'', JStr ''ADMIN''),
                         (''current'', JStr ''USER'')]"
  have "(requireRole ''ADMIN'' :: js_error + (request \<Rightarrow> unit outcome)) =
            Inr (roleMiddleware ''ADMIN'') \<and>
        (roleMiddleware ''ADMIN'' plain_user :: unit outcome) = Respond 403 ?b3"
    by (simp add: requireRole_def isValidRole_def roleMiddleware_def plain_user_def role_key_def
      role_json_def hasRoleLevel_def ROLES_get_def ROLES_def)
  with C10_default_status_by_code[where minimumRole = "''ADMIN''"
         and rmw = "roleMiddleware ''ADMIN''" and req = plain_user and st = 403 and body = ?b3]
  have three: "status_fits_code 403 ?b3" by blast
  let ?b4 = "[(''success'', JBool False),
                         (''error'', JStr ''Failed to verify resource ownership''),
                         (''code'', JStr ''OWNERSHIP_CHECK_FAILED'')]"
  let ?acc = "AccessorFn (\<lambda>req. Inl (Error ''database unavailable''))"
  have "(requireOwnership ?acc plain_user :: unit outcome) = Respond 500 ?b4"
    by (simp add: requireOwnership_def ownershipMiddleware_def plain_user_def)
  with C10_default_status_by_code[where getResourceOwnerId = ?acc and req = plain_user
         and st = 500 and body = ?b4]
  have four: "status_fits_code 500 ?b4" by blast
  from one two three four show ?thesis by blast
qed

end
